theory Spec2Isabelle
  imports Complex_Main "HOL-Library.Sublist"
begin

section \<open>Data model\<close>

text \<open>
  A JavaScript \<open>number\<close> is a double, and every double is a real number: \<open>number\<close>
  is the type of the reals.  The volume steps compute with tenths, which doubles do not
  represent, so there the rounding of every literal and every operation is written out
  with \<open>double\<close> (below).  The seek functions and the timeout are used at whole numbers,
  where the arithmetic of doubles is exact, and are written with the exact operations.
  A value that may be \<open>undefined\<close> or \<open>null\<close> is an \<open>option\<close>, with \<open>None\<close>
  for the absent value.
\<close>

type_synonym number = real

subsection \<open>Notifications (composables, \<open>useNotification\<close>)\<close>

text \<open>
  \<open>Notification\<close> is the argument of \<open>add\<close>, \<open>NotificationWithId\<close> an entry of the
  persisted list.  Their fields \<open>text\<close>, \<open>type\<close>, \<open>timeout\<close> and \<open>id\<close> are prefixed here
  (\<open>opt_\<close> for the argument, \<open>n\<close> for the entry).
\<close>

record Notification =
  opt_text :: string
  opt_type :: string
  opt_timeout :: "number option"

record NotificationWithId =
  nid :: string
  ntext :: string
  ntype :: string
  ntimeout :: number

type_synonym store = "NotificationWithId list"

definition MAX_SAFE_INTEGER :: number where
  "MAX_SAFE_INTEGER = 9007199254740991"

text \<open>
  \<open>options.timeout === -1 ? Number.MAX_SAFE_INTEGER : options.timeout ?? 0\<close>
\<close>

definition stored_timeout :: "number option \<Rightarrow> number" where
  "stored_timeout t =
     (if t = Some (- 1) then MAX_SAFE_INTEGER
      else (case t of None \<Rightarrow> 0 | Some v \<Rightarrow> v))"

text \<open>
  \<open>add\<close> draws \<open>uniqueId\<close> from the \<open>uuid\<close> package and pushes the new entry.  The drawn
  id is the first argument of the model.  The arrow function has a block body without a
  \<open>return\<close> statement, so the caller receives \<open>undefined\<close>: the first component of the
  result is the value returned (\<open>None\<close> for \<open>undefined\<close>), the second the new list.
\<close>

definition add :: "string \<Rightarrow> Notification \<Rightarrow> store \<Rightarrow> string option \<times> store" where
  "add uniqueId options st =
     (None,
      st @ [\<lparr>nid = uniqueId, ntext = opt_text options, ntype = opt_type options,
             ntimeout = stored_timeout (opt_timeout options)\<rparr>])"

text \<open>\<open>Array.prototype.findIndex\<close>: the first index whose element satisfies the test, or -1.\<close>

fun findIndex :: "('a \<Rightarrow> bool) \<Rightarrow> 'a list \<Rightarrow> int" where
  "findIndex P [] = - 1"
| "findIndex P (x # xs) =
     (if P x then 0 else (let i = findIndex P xs in if i = - 1 then - 1 else i + 1))"

text \<open>\<open>splice(i, 1)\<close> at an index \<open>i\<close> that is not negative.\<close>

definition splice1 :: "nat \<Rightarrow> 'a list \<Rightarrow> 'a list" where
  "splice1 i xs = take i xs @ drop (Suc i) xs"

definition remove :: "string \<Rightarrow> store \<Rightarrow> store" where
  "remove ident st =
     (let indexToRemove = findIndex (\<lambda>x. nid x = ident) st
      in if indexToRemove > - 1 then splice1 (nat indexToRemove) st else st)"

text \<open>
  Modelled from the spec: the id generator \<open>uuid\<close> (the v4 function of the package
  \<open>uuid\<close>), which \<open>add\<close> calls and which is not under \<open>src/\<close>.  The spec asks of it
  "a fresh unique id", an opaque identifier: it is modelled as a supply that never hands
  out an id twice.  The state of the supply is the number of ids issued so far, and the
  id issued next is that number in hexadecimal digits, lowest digit first.
\<close>

definition hexdigit :: "nat \<Rightarrow> char" where
  "hexdigit d = ''0123456789abcdef'' ! d"

fun hex :: "nat \<Rightarrow> string" where
  "hex n = (if n < 16 then [hexdigit n] else hexdigit (n mod 16) # hex (n div 16))"

declare hex.simps [simp del]

definition uuid :: "nat \<Rightarrow> string \<times> nat" where
  "uuid g = (hex g, Suc g)"

definition issued_ids :: "nat \<Rightarrow> string list" where
  "issued_ids g = map (\<lambda>k. fst (uuid k)) [0..<g]"

text \<open>
  The notification store with its supply of ids: the number of ids issued and the
  persisted list.  \<open>add_call\<close> is a call \<open>add(options)\<close>, which draws its id from
  \<open>uuid\<close>; its first component is the value handed back to the caller.
\<close>

type_synonym system = "nat \<times> store"

definition add_call :: "Notification \<Rightarrow> system \<Rightarrow> string option \<times> system" where
  "add_call options s =
     (let (uniqueId, g') = uuid (fst s);
          (r, st') = add uniqueId options (snd s)
      in (r, (g', st')))"

datatype store_call = Add Notification | Remove string

fun call :: "system \<Rightarrow> store_call \<Rightarrow> system" where
  "call s (Add options) = snd (add_call options s)"
| "call s (Remove ident) = (fst s, remove ident (snd s))"

text \<open>A sequence of calls, from the empty store and a supply that has issued nothing.\<close>

definition run_calls :: "store_call list \<Rightarrow> system" where
  "run_calls ops = foldl call (0, []) ops"

text \<open>
  The entries that the \<open>add\<close> calls of a sequence create, in the order of the calls,
  when the supply has issued \<open>g\<close> ids before.
\<close>

fun added_entries :: "nat \<Rightarrow> store_call list \<Rightarrow> store" where
  "added_entries g [] = []"
| "added_entries g (Add options # ops) =
     snd (add (fst (uuid g)) options []) @ added_entries (snd (uuid g)) ops"
| "added_entries g (Remove ident # ops) = added_entries g ops"

fun is_add :: "store_call \<Rightarrow> bool" where
  "is_add (Add options) = True"
| "is_add (Remove ident) = False"

subsection \<open>JavaScript strings and numbers\<close>

text \<open>
  \<open>String.prototype.replace\<close> with a string pattern replaces the first occurrence only.
\<close>

fun replace :: "string \<Rightarrow> string \<Rightarrow> string \<Rightarrow> string" where
  "replace pat rep [] = (if pat = [] then rep else [])"
| "replace pat rep (c # cs) =
     (if prefix pat (c # cs) then rep @ drop (length pat) (c # cs)
      else c # replace pat rep cs)"

text \<open>
  \<open>substring(start, end)\<close> for indices that are not negative: both are cut at the
  length, and swapped when the first exceeds the second.
\<close>

definition substring :: "string \<Rightarrow> nat \<Rightarrow> nat \<Rightarrow> string" where
  "substring s a b =
     (let a' = min a (length s); b' = min b (length s)
      in take (max a' b' - min a' b') (drop (min a' b') s))"

text \<open>\<open>toLowerCase\<close> on the ASCII letters.\<close>

definition lower_char :: "char \<Rightarrow> char" where
  "lower_char c =
     (let n = (of_char c :: nat) in if 65 \<le> n \<and> n \<le> 90 then char_of (n + 32) else c)"

definition toLowerCase :: "string \<Rightarrow> string" where
  "toLowerCase s = map lower_char s"

text \<open>
  Rounding a real number to the nearest double, a tie going to the even mantissa.
  \<open>binade x\<close> is the exponent \<open>e\<close> with \<open>2 ^ e \<le> x < 2 ^ (e + 1)\<close> for a positive
  \<open>x\<close>; a double has 53 bits, so its last bit is worth \<open>2 ^ (e - 52)\<close>, and no less
  than \<open>2 ^ (- 1074)\<close>.  Overflow to infinity is not modelled.  A literal \<open>0.1\<close> is
  \<open>double 0.1\<close>, a sum \<open>a + b\<close> of doubles is \<open>double (a + b)\<close>.
\<close>

fun ilog2 :: "nat \<Rightarrow> nat" where
  "ilog2 n = (if n < 2 then 0 else Suc (ilog2 (n div 2)))"

declare ilog2.simps [simp del]

definition binade :: "real \<Rightarrow> int" where
  "binade x =
     (if 1 \<le> x then int (ilog2 (nat \<lfloor>x\<rfloor>))
      else (let m = nat \<lceil>1 / x\<rceil> in if m \<le> 1 then 0 else - int (Suc (ilog2 (m - 1)))))"

definition double :: "real \<Rightarrow> number" where
  "double x =
     (if x = 0 then 0
      else (let e = max (binade \<bar>x\<bar>) (- 1022);
                u = 2 powi (e - 52);
                q = \<bar>x\<bar> / u;
                f = \<lfloor>q\<rfloor>;
                m = (if q - of_int f < 1 / 2 then f
                     else if 1 / 2 < q - of_int f then f + 1
                     else if even f then f else f + 1)
            in sgn x * of_int m * u))"

text \<open>
  \<open>parseFloat(x.toFixed(1))\<close>: \<open>toFixed(1)\<close> prints the multiple of one tenth nearest to
  the exact value of the double \<open>x\<close>, a tie going to the larger magnitude (it rounds the
  absolute value and puts the sign back), and \<open>parseFloat\<close> reads that decimal as a double.
\<close>

definition toFixed1 :: "number \<Rightarrow> number" where
  "toFixed1 x =
     double (if x < 0 then - (of_int \<lfloor>(- x) * 10 + 1 / 2\<rfloor> / 10)
             else of_int \<lfloor>x * 10 + 1 / 2\<rfloor> / 10)"

text \<open>An array read \<open>xs[i]\<close>: \<open>undefined\<close> outside the array.\<close>

definition js_index :: "'a list \<Rightarrow> int \<Rightarrow> 'a option" where
  "js_index xs i = (if 0 \<le> i \<and> i < int (length xs) then Some (xs ! nat i) else None)"

text \<open>Truthiness of a string that may be \<open>undefined\<close> or \<open>null\<close>.\<close>

definition truthy :: "string option \<Rightarrow> bool" where
  "truthy v = (case v of None \<Rightarrow> False | Some s \<Rightarrow> s \<noteq> [])"

subsection \<open>The player view (\<open>Player.vue\<close>)\<close>

definition PLAYBACK_SPEEDS :: "number list" where
  "PLAYBACK_SPEEDS =
     [0.07, 0.1, 0.25, 0.5, 0.75, 1, 1.25, 1.5, 1.75, 2, 2.5, 3, 5, 7.5, 10, 12, 14, 16]"

definition VALID_EXTENSIONS :: "string list" where
  "VALID_EXTENSIONS = [''ogg'', ''webm'', ''mp4'', ''mkv'', ''mov'', ''mp3'']"

datatype icon = Play | Pause | Rewind | FastForward | VolumeX | Volume1 | Volume2

text \<open>
  The text of a transformation alert.  The two template strings of the source are kept
  symbolic: \<open>Seconds a\<close> stands for \<open>`${a}s`\<close> and \<open>Percent p\<close> for \<open>`${p}%`\<close>.
\<close>

datatype label = Literal string | Seconds number | Percent number

text \<open>The persisted record \<open>history\<close>; its fields are prefixed with \<open>h_\<close>.\<close>

record History =
  h_volume :: number
  h_time :: number
  h_title :: "string option"
  h_isYoutube :: bool
  h_video :: "string option"
  h_youtubeCode :: "string option"

text \<open>
  The refs and variables of the view that the modelled functions read or write.
  \<open>videoPlayer\<close> tells whether the video element is there, \<open>hideTimer\<close> whether the
  1250 ms timeout that hides the controls is pending, \<open>notifications\<close> is the list of
  the notification store.  The 600 ms timeout that clears a transformation alert is a later
  event and not part of the functions below, and neither are the watchers that copy
  \<open>volume\<close>, \<open>currentTime\<close> and \<open>videoTitle\<close> into the history afterwards.
\<close>

record player =
  videoPlayer :: bool
  playing :: bool
  currentTime :: number
  duration :: number
  volume :: number
  rate :: "number option"
  playbackIndex :: int
  volumeCache :: number
  videoSrc :: string
  videoTitle :: "string option"
  choosingVideo :: bool
  uiHidden :: bool
  hideTimer :: bool
  transformationIcon :: "icon option"
  transformationText :: "label option"
  history :: History
  notifications :: store

text \<open>
  What the view gets from its host (the Tauri API, the file system, the media element).
  A promise that is rejected is \<open>None\<close>.
\<close>

record host =
  basename :: "string \<Rightarrow> string option"
  extname :: "string \<Rightarrow> string option"
  convertFileSrc :: "string \<Rightarrow> string"
  exists_file :: "string \<Rightarrow> bool"
  play_resolves :: bool
  downloadDir :: string
  join :: "string \<Rightarrow> string \<Rightarrow> string"
  save :: "string \<Rightarrow> string option"
  invoke_save_youtube_video :: "string option \<Rightarrow> string \<Rightarrow> string option"

datatype promise = Fulfilled | Rejected

text \<open>
  The view once it is mounted on a fresh installation: \<open>playbackIndex\<close> is 5,
  \<open>volumeCache\<close> 0.5, the media controls are at time 0 and rate 1 with nothing playing,
  the timeout that hides the controls is started, the stored history has its default
  value, and \<open>onMounted\<close> has copied the volume 0.5 of that history into \<open>volume\<close>.
\<close>

definition initial_history :: History where
  "initial_history =
     \<lparr>h_volume = 0.5, h_time = 0, h_title = None, h_isYoutube = False, h_video = None,
      h_youtubeCode = None\<rparr>"

definition initial_player :: player where
  "initial_player =
     \<lparr>videoPlayer = True, playing = False, currentTime = 0, duration = 0, volume = 0.5,
      rate = Some 1, playbackIndex = 5, volumeCache = 0.5, videoSrc = [], videoTitle = None,
      choosingVideo = False, uiHidden = False, hideTimer = True, transformationIcon = None,
      transformationText = None, history = initial_history, notifications = []\<rparr>"

definition displayTransformationAlert :: "icon \<Rightarrow> label option \<Rightarrow> player \<Rightarrow> player" where
  "displayTransformationAlert icon text st =
     st\<lparr>transformationIcon := Some icon,
        transformationText := Some (case text of None \<Rightarrow> Literal [] | Some t \<Rightarrow> t)\<rparr>"

definition getVolumeIcon :: "number \<Rightarrow> icon" where
  "getVolumeIcon v = (if v = 0 then VolumeX else if v < 0.5 then Volume1 else Volume2)"

definition increaseVolume :: "player \<Rightarrow> player" where
  "increaseVolume st =
     (let st1 = (if volume st < 1
                 then st\<lparr>volume := toFixed1 (double (volume st + double 0.1))\<rparr> else st)
      in displayTransformationAlert (getVolumeIcon (volume st1))
           (Some (Percent (double (toFixed1 (volume st1) * 100)))) st1)"

definition decreaseVolume :: "player \<Rightarrow> player" where
  "decreaseVolume st =
     (let st1 = (if volume st > 0
                 then st\<lparr>volume := toFixed1 (double (volume st - double 0.1))\<rparr> else st)
      in displayTransformationAlert (getVolumeIcon (volume st1))
           (Some (Percent (double (toFixed1 (volume st1) * 100)))) st1)"

definition forwardVideo :: "number \<Rightarrow> player \<Rightarrow> player" where
  "forwardVideo amount st =
     (let st1 = (if currentTime st \<le> duration st - amount
                 then st\<lparr>currentTime := currentTime st + amount\<rparr> else st)
      in displayTransformationAlert FastForward (Some (Seconds amount)) st1)"

definition rewindVideo :: "number \<Rightarrow> player \<Rightarrow> player" where
  "rewindVideo amount st =
     (let st1 = (if currentTime st \<ge> amount
                 then st\<lparr>currentTime := currentTime st - amount\<rparr>
                 else st\<lparr>currentTime := 0\<rparr>)
      in displayTransformationAlert Rewind (Some (Seconds amount)) st1)"

text \<open>
  \<open>playVideo\<close>: \<open>playing\<close> follows the media element, which plays only when its
  \<open>play()\<close> promise resolves; a rejection is swallowed.
\<close>

definition playVideo :: "host \<Rightarrow> player \<Rightarrow> player" where
  "playVideo h st =
     (if \<not> videoPlayer st then st
      else if playing st then displayTransformationAlert Pause None (st\<lparr>playing := False\<rparr>)
      else displayTransformationAlert Play None (st\<lparr>playing := play_resolves h\<rparr>))"

definition changePlayrate :: "number \<Rightarrow> player \<Rightarrow> player" where
  "changePlayrate direction st =
     (let i = (if direction = 1
               then (if playbackIndex st < int (length PLAYBACK_SPEEDS) - 1
                     then playbackIndex st + 1 else playbackIndex st)
               else (if playbackIndex st > 0
                     then playbackIndex st - 1 else playbackIndex st))
      in st\<lparr>playbackIndex := i, rate := js_index PLAYBACK_SPEEDS i,
            uiHidden := False, hideTimer := True\<rparr>)"

text \<open>A sequence of calls of \<open>changePlayrate\<close>, by their directions.\<close>

definition changePlayrates :: "number list \<Rightarrow> player \<Rightarrow> player" where
  "changePlayrates ds st = foldl (\<lambda>s d. changePlayrate d s) st ds"

text \<open>
  \<open>setVideoSource\<close>.  The call of \<open>console.warn\<close> for an extension outside
  \<open>VALID_EXTENSIONS\<close> changes nothing and is left out.  A rejected \<open>basename\<close> or
  \<open>extname\<close> rejects the whole call, with the assignments made so far kept.
\<close>

definition setVideoSource :: "host \<Rightarrow> string \<Rightarrow> string option \<Rightarrow> player \<Rightarrow> promise \<times> player" where
  "setVideoSource h filepath title st =
     (case (if \<not> truthy title
            then (case basename h filepath of None \<Rightarrow> None
                  | Some b \<Rightarrow>
                      (case extname h filepath of None \<Rightarrow> None
                       | Some extension \<Rightarrow> Some (replace (''.'' @ extension) [] b)))
            else title) of
        None \<Rightarrow> (Rejected, st)
      | Some title' \<Rightarrow>
          (let st1 = st\<lparr>history := (history st)\<lparr>h_video := Some filepath\<rparr>,
                         choosingVideo := False\<rparr>;
               filepath' = convertFileSrc h filepath;
               st2 = st1\<lparr>videoTitle := Some title', videoSrc := filepath'\<rparr>
           in (case extname h filepath' of None \<Rightarrow> (Rejected, st2)
               | Some fileExtension \<Rightarrow> (Fulfilled, playVideo h st2))))"

definition showVideoChooser :: "host \<Rightarrow> player \<Rightarrow> player" where
  "showVideoChooser h st =
     (let st1 = st\<lparr>choosingVideo := True\<rparr>
      in if playing st1 then playVideo h st1 else st1)"

text \<open>
  The end of \<open>onBeforeMount\<close>, after the \<open>video-downloaded\<close> listener is registered:
  \<open>videoPath\<close> is the value of the CLI argument.  The result names the call the hook
  ends with; \<open>setVideoSource\<close> is not awaited, so the hook is fulfilled whatever becomes of
  that call, and it is rejected when \<open>extname\<close> is.
\<close>

datatype startup = CallsSetVideoSource | CallsShowVideoChooser | RejectedByExtname

definition onBeforeMount :: "host \<Rightarrow> string option \<Rightarrow> player \<Rightarrow> startup \<times> player" where
  "onBeforeMount h videoPath st =
     (case videoPath of
        None \<Rightarrow> (CallsShowVideoChooser, showVideoChooser h st)
      | Some p \<Rightarrow>
          (if p \<noteq> [] \<and> exists_file h p
           then (case extname h p of
                   None \<Rightarrow> (RejectedByExtname, st)
                 | Some extension \<Rightarrow>
                     (if substring (toLowerCase extension) 1 (length (toLowerCase extension))
                           \<in> set VALID_EXTENSIONS
                      then (CallsSetVideoSource, snd (setVideoSource h p None st))
                      else (CallsShowVideoChooser, showVideoChooser h st)))
           else (CallsShowVideoChooser, showVideoChooser h st)))"

text \<open>
  \<open>saveYouTubeVideo\<close>, with the ids that \<open>uuid\<close> hands to its two possible calls of
  \<open>add\<close>.  The first component lists the calls made to the host, in order.
\<close>

datatype host_call = SaveDialog string | InvokeSaveYoutubeVideo "string option" string

definition notify :: "string \<Rightarrow> Notification \<Rightarrow> player \<Rightarrow> player" where
  "notify uniqueId options st = st\<lparr>notifications := snd (add uniqueId options (notifications st))\<rparr>"

definition saveYouTubeVideo :: "host \<Rightarrow> string \<Rightarrow> string \<Rightarrow> player \<Rightarrow> host_call list \<times> player" where
  "saveYouTubeVideo h id1 id2 st =
     (let lastYoutubeCode = h_youtubeCode (history st);
          st1 = (if \<not> truthy lastYoutubeCode
                 then notify id1 \<lparr>opt_text = ''You haven't downloaded a YouTube video yet'',
                                   opt_type = ''warning'', opt_timeout = Some 5000\<rparr> st
                 else st);
          defaultPath = join h (downloadDir h)
                          ((case videoTitle st1 of None \<Rightarrow> ''video'' | Some t \<Rightarrow> t) @ ''.mp4'');
          filePath = save h defaultPath
      in (case filePath of
            None \<Rightarrow> ([SaveDialog defaultPath], st1)
          | Some path \<Rightarrow>
              (if path = [] then ([SaveDialog defaultPath], st1)
               else
                 (let result = invoke_save_youtube_video h lastYoutubeCode path
                  in ([SaveDialog defaultPath, InvokeSaveYoutubeVideo lastYoutubeCode path],
                      (if truthy result
                       then notify id2 \<lparr>opt_text = the result, opt_type = ''error'',
                                         opt_timeout = Some 10000\<rparr> st1
                       else notify id2 \<lparr>opt_text = ''Saved successfully'', opt_type = ''success'',
                                         opt_timeout = Some 3000\<rparr> st1))))))"

text \<open>
  The claim about \<open>setVideoSource\<close> describes the derived title as the file name with
  its extension stripped.  This is that description, to compare the code with: the file
  name without its ending \<open>.extension\<close>.
\<close>

definition strip_extension :: "string \<Rightarrow> string \<Rightarrow> string" where
  "strip_extension name extension =
     (if suffix (''.'' @ extension) name
      then take (length name - length (''.'' @ extension)) name else name)"

text \<open>
  A host for the concrete instances below.  Its \<open>basename\<close> is the text after the last
  slash, rejected when that is empty; its \<open>extname\<close> is the text after the last dot of
  the base name, without the dot, rejected when the base name has no dot or only a leading
  one (the contract of the path module of the Tauri API).  The files on disk are given by a
  list, \<open>convertFileSrc\<close> puts the asset protocol in front of the path, the save dialog
  returns the path it proposes and the save command succeeds.
\<close>

definition last_component :: "string \<Rightarrow> string" where
  "last_component p = rev (takeWhile (\<lambda>c. c \<noteq> CHR ''/'') (rev p))"

definition path_basename :: "string \<Rightarrow> string option" where
  "path_basename p = (if last_component p = [] then None else Some (last_component p))"

definition path_extname :: "string \<Rightarrow> string option" where
  "path_extname p =
     (let b = last_component p;
          e = rev (takeWhile (\<lambda>c. c \<noteq> CHR ''.'') (rev b))
      in if CHR ''.'' \<notin> set b \<or> length e + 1 = length b then None else Some e)"

definition example_host :: "string list \<Rightarrow> host" where
  "example_host files =
     \<lparr>basename = path_basename, extname = path_extname,
      convertFileSrc = (\<lambda>p. ''asset://localhost'' @ p),
      exists_file = (\<lambda>p. p \<in> set files), play_resolves = True,
      downloadDir = ''/home/user/Downloads'', join = (\<lambda>a b. a @ ''/'' @ b),
      save = (\<lambda>p. Some p), invoke_save_youtube_video = (\<lambda>c p. None)\<rparr>"

subsection \<open>The window helper (composables, \<open>useWindowClose\<close>)\<close>

text \<open>
  The open windows by label, and the current values of the boolean refs.  The argument
  \<open>disableBlur\<close> is a boolean or a \<open>Ref<boolean>\<close>.
\<close>

record world =
  windows :: "string set"
  refs :: "nat \<Rightarrow> bool"

datatype blur_flag = Plain bool | Ref nat

record KeyboardEvent =
  code :: string

definition getByLabel :: "string \<Rightarrow> world \<Rightarrow> string option" where
  "getByLabel label w = (if label \<in> windows w then Some label else None)"

definition closeWindow :: "string \<Rightarrow> world \<Rightarrow> world" where
  "closeWindow label w =
     (case getByLabel label w of None \<Rightarrow> w
      | Some window \<Rightarrow> w\<lparr>windows := windows w - {window}\<rparr>)"

definition eventHandler :: "string \<Rightarrow> KeyboardEvent \<Rightarrow> world \<Rightarrow> world" where
  "eventHandler label e w = (if code e = ''Escape'' then closeWindow label w else w)"

definition blurListener :: "string \<Rightarrow> blur_flag \<Rightarrow> world \<Rightarrow> world" where
  "blurListener label disableBlur w =
     (case disableBlur of
        Ref r \<Rightarrow> (if \<not> refs w r then closeWindow label w else w)
      | Plain b \<Rightarrow> (if \<not> b then closeWindow label w else w))"

text \<open>
  \<open>useWindowClose\<close> registers the blur listener on the window it finds under the label
  (none when there is no such window) and hands \<open>eventHandler\<close> to the key-down events
  of the mounted component.  An event runs the registered listener on the world of that
  moment.
\<close>

record listeners =
  on_blur :: "(world \<Rightarrow> world) option"
  on_keydown :: "KeyboardEvent \<Rightarrow> world \<Rightarrow> world"

definition useWindowClose :: "string \<Rightarrow> blur_flag \<Rightarrow> world \<Rightarrow> listeners" where
  "useWindowClose label disableBlur w =
     \<lparr>on_blur = (case getByLabel label w of None \<Rightarrow> None
                 | Some window \<Rightarrow> Some (blurListener label disableBlur)),
      on_keydown = eventHandler label\<rparr>"

definition fire_blur :: "listeners \<Rightarrow> world \<Rightarrow> world" where
  "fire_blur ls w = (case on_blur ls of None \<Rightarrow> w | Some f \<Rightarrow> f w)"

definition fire_keydown :: "listeners \<Rightarrow> bool \<Rightarrow> KeyboardEvent \<Rightarrow> world \<Rightarrow> world" where
  "fire_keydown ls mounted e w = (if mounted then on_keydown ls e w else w)"

section \<open>Properties of the notification store\<close>

lemma stored_timeout_sentinel: "stored_timeout (Some (- 1)) = MAX_SAFE_INTEGER"
  by (simp add: stored_timeout_def)

lemma stored_timeout_nonneg: "0 \<le> v \<Longrightarrow> stored_timeout (Some v) = v"
  by (simp add: stored_timeout_def)

lemma stored_timeout_other: "v \<noteq> - 1 \<Longrightarrow> stored_timeout (Some v) = v"
  by (simp add: stored_timeout_def)

lemma stored_timeout_absent: "stored_timeout None = 0"
  by (simp add: stored_timeout_def)

text \<open>
  Claim C8.  The entry that \<open>add\<close> appends carries the normalised timeout: the sentinel
  input \<open>-1\<close> is stored as \<open>Number.MAX_SAFE_INTEGER\<close>, and a non-negative input timeout is
  stored unchanged.
\<close>

theorem add_timeout_normalized:
  "(opt_timeout options = Some (- 1) \<longrightarrow>
      ntimeout (last (snd (add uniqueId options st))) = MAX_SAFE_INTEGER)
   \<and> (\<forall>v. opt_timeout options = Some v \<and> 0 \<le> v \<longrightarrow>
          ntimeout (last (snd (add uniqueId options st))) = v)"
  by (simp add: add_def stored_timeout_def)

theorem add_timeout_normalized_witness:
  "ntimeout (last (snd (add ''u1'' \<lparr>opt_text = ''x'', opt_type = ''error'', opt_timeout = Some (- 1)\<rparr> []))) =
     9007199254740991
   \<and> ntimeout (last (snd (add ''u2'' \<lparr>opt_text = ''x'', opt_type = ''error'', opt_timeout = Some 5000\<rparr> []))) =
     5000"
  using add_timeout_normalized [where uniqueId = "''u1''" and st = "[]"
      and options = "\<lparr>opt_text = ''x'', opt_type = ''error'', opt_timeout = Some (- 1)\<rparr>"]
    add_timeout_normalized [where uniqueId = "''u2''" and st = "[]"
      and options = "\<lparr>opt_text = ''x'', opt_type = ''error'', opt_timeout = Some 5000\<rparr>"]
  by (simp add: MAX_SAFE_INTEGER_def)

subsection \<open>The supply of ids\<close>

lemma distinct_hexdigits: "distinct ''0123456789abcdef''"
  by simp

lemma hexdigit_inj: "d < 16 \<Longrightarrow> d' < 16 \<Longrightarrow> hexdigit d = hexdigit d' \<Longrightarrow> d = d'"
  using distinct_hexdigits by (simp add: hexdigit_def nth_eq_iff_index_eq)

lemma hex_inj: "hex n = hex m \<Longrightarrow> n = m"
proof (induction n arbitrary: m rule: hex.induct)
  case (1 n)
  show ?case
  proof (cases "n < 16")
    case True
    then have n: "hex n = [hexdigit n]" by (simp add: hex.simps)
    have m16: "m < 16"
    proof (rule ccontr)
      assume "\<not> m < 16"
      then have "hex m = hexdigit (m mod 16) # hex (m div 16)" by (simp add: hex.simps)
      moreover have "hex (m div 16) \<noteq> []" by (subst hex.simps) simp
      ultimately show False using "1.prems" n by simp
    qed
    then have "hex m = [hexdigit m]" by (simp add: hex.simps)
    then show ?thesis using "1.prems" n True m16 hexdigit_inj by simp
  next
    case False
    then have n: "hex n = hexdigit (n mod 16) # hex (n div 16)" by (simp add: hex.simps)
    have m16: "\<not> m < 16"
    proof
      assume "m < 16"
      then have "hex m = [hexdigit m]" by (simp add: hex.simps)
      moreover have "hex (n div 16) \<noteq> []" by (subst hex.simps) simp
      ultimately show False using "1.prems" n by simp
    qed
    then have m: "hex m = hexdigit (m mod 16) # hex (m div 16)" by (simp add: hex.simps)
    from "1.prems" n m have d: "hexdigit (n mod 16) = hexdigit (m mod 16)"
      and r: "hex (n div 16) = hex (m div 16)" by simp_all
    have "n mod 16 = m mod 16" using d by (intro hexdigit_inj) simp_all
    moreover have "n div 16 = m div 16" using "1.IH" [OF False r] .
    ultimately show ?thesis by (metis div_mult_mod_eq)
  qed
qed

lemma uuid_fresh: "k < g \<Longrightarrow> fst (uuid k) \<noteq> fst (uuid g)"
  using hex_inj [of k g] by (auto simp: uuid_def)

lemma issued_ids_fresh: "fst (uuid g) \<notin> set (issued_ids g)"
proof
  assume "fst (uuid g) \<in> set (issued_ids g)"
  then obtain k where "k < g" and "fst (uuid k) = fst (uuid g)"
    by (auto simp: issued_ids_def)
  then show False using uuid_fresh [of k g] by simp
qed

lemma distinct_issued_ids: "distinct (issued_ids g)"
  unfolding issued_ids_def by (rule distinct_map [THEN iffD2]) (auto simp: inj_on_def uuid_def dest: hex_inj)

lemma add_call_result:
  "add_call options s =
     (None, (Suc (fst s),
       snd s @ [\<lparr>nid = fst (uuid (fst s)), ntext = opt_text options, ntype = opt_type options,
                 ntimeout = stored_timeout (opt_timeout options)\<rparr>]))"
  by (simp add: add_call_def add_def uuid_def)

subsection \<open>The ids in the list\<close>

lemma splice1_subseq: "subseq (splice1 i xs) xs"
proof -
  have "subseq (take i xs @ drop (Suc i) xs) (take i xs @ drop i xs)"
    unfolding subseq_append'
    by (metis drop_Suc subseq_drop_many append_take_drop_id drop_drop
        subseq_order.order_refl plus_1_eq_Suc)
  then show ?thesis by (simp add: splice1_def)
qed

lemma remove_subseq: "subseq (remove ident st) st"
  by (simp add: remove_def Let_def splice1_subseq)

lemma remove_ids: "nid ` set (remove ident st) \<subseteq> nid ` set st"
  using remove_subseq [of ident st] by (metis image_mono set_nths_subset subseq_conv_nths)

lemma stored_ids_issued:
  "nid ` set (snd s) \<subseteq> set (issued_ids (fst s)) \<Longrightarrow>
     nid ` set (snd (foldl call s ops)) \<subseteq> set (issued_ids (fst (foldl call s ops)))"
proof (induction ops arbitrary: s)
  case Nil
  then show ?case by simp
next
  case (Cons x ops)
  have "nid ` set (snd (call s x)) \<subseteq> set (issued_ids (fst (call s x)))"
  proof (cases x)
    case (Add options)
    then show ?thesis using Cons.prems by (auto simp: add_call_result issued_ids_def)
  next
    case (Remove ident)
    then show ?thesis using Cons.prems remove_ids [of ident "snd s"] by auto
  qed
  then show ?case using Cons.IH [of "call s x"] by simp
qed

lemma run_calls_ids_issued:
  "nid ` set (snd (run_calls ops)) \<subseteq> set (issued_ids (fst (run_calls ops)))"
  unfolding run_calls_def by (rule stored_ids_issued) simp

subsection \<open>A call of \<open>add\<close>\<close>

text \<open>
  Claim C2, as stated, at the first call on the empty store: the value that \<open>add\<close>
  hands back to its caller is not the id of the entry it has just stored.
\<close>

theorem add_call_returns_id_counterexample:
  "fst (add_call \<lparr>opt_text = ''x'', opt_type = ''info'', opt_timeout = None\<rparr> (run_calls []))
     \<noteq> Some (nid (last (snd (snd (add_call \<lparr>opt_text = ''x'', opt_type = ''info'', opt_timeout = None\<rparr>
                (run_calls []))))))"
  by (simp add: add_call_result)

text \<open>
  Claim C2, amended in its last clause only.  After any sequence of calls from the empty
  store, a call of \<open>add\<close> generates a fresh unique id (the next one of \<open>uuid\<close>, which is
  none of the ids issued before and none of the ids in the list), appends the new entry
  with that id and the text and type of its argument to the end of the persisted list, and
  returns nothing (\<open>undefined\<close>) to the caller.
\<close>

theorem add_generates_fresh_id:
  "fst (add_call options (run_calls ops)) = None
   \<and> snd (snd (add_call options (run_calls ops)))
       = snd (run_calls ops) @ [last (snd (snd (add_call options (run_calls ops))))]
   \<and> nid (last (snd (snd (add_call options (run_calls ops))))) = fst (uuid (fst (run_calls ops)))
   \<and> nid (last (snd (snd (add_call options (run_calls ops))))) \<notin> set (issued_ids (fst (run_calls ops)))
   \<and> nid (last (snd (snd (add_call options (run_calls ops))))) \<notin> nid ` set (snd (run_calls ops))
   \<and> ntext (last (snd (snd (add_call options (run_calls ops))))) = opt_text options
   \<and> ntype (last (snd (snd (add_call options (run_calls ops))))) = opt_type options"
  using run_calls_ids_issued [of ops] issued_ids_fresh [of "fst (run_calls ops)"]
  by (auto simp: add_call_result)


subsection \<open>Sequences of \<open>add\<close> and \<open>remove\<close>\<close>

lemma foldl_call_subseq:
  "subseq (snd (foldl call s ops)) (snd s @ added_entries (fst s) ops)"
proof (induction ops arbitrary: s)
  case Nil
  show ?case by simp
next
  case (Cons x ops)
  show ?case
  proof (cases x)
    case (Add options)
    then show ?thesis using Cons.IH [of "call s x"]
      by (simp add: add_call_result add_def uuid_def)
  next
    case (Remove ident)
    have "subseq (remove ident (snd s) @ added_entries (fst s) ops) (snd s @ added_entries (fst s) ops)"
      by (simp add: remove_subseq)
    with Cons.IH [of "call s x"] show ?thesis
      using Remove subseq_order.order_trans by fastforce
  qed
qed

lemma foldl_call_adds:
  "list_all is_add ops \<Longrightarrow> snd (foldl call s ops) = snd s @ added_entries (fst s) ops"
proof (induction ops arbitrary: s)
  case Nil
  show ?case by simp
next
  case (Cons x ops)
  then show ?case by (cases x) (simp_all add: add_call_result add_def uuid_def)
qed

lemma added_entries_ids:
  "set (map nid (added_entries g ops)) \<subseteq> {fst (uuid k) | k. g \<le> k}"
proof (induction ops arbitrary: g)
  case Nil
  show ?case by simp
next
  case (Cons x ops)
  show ?case
  proof (cases x)
    case (Add options)
    have "set (map nid (added_entries (Suc g) ops)) \<subseteq> {fst (uuid k) | k. g \<le> k}"
      using Cons.IH [of "Suc g"] by (auto intro: Suc_leD)
    then show ?thesis using Add by (auto simp: add_def uuid_def)
  next
    case (Remove ident)
    then show ?thesis using Cons.IH [of g] by simp
  qed
qed

lemma distinct_added_entries: "distinct (map nid (added_entries g ops))"
proof (induction ops arbitrary: g)
  case Nil
  show ?case by simp
next
  case (Cons x ops)
  show ?case
  proof (cases x)
    case (Add options)
    have "fst (uuid g) \<notin> set (map nid (added_entries (Suc g) ops))"
    proof
      assume "fst (uuid g) \<in> set (map nid (added_entries (Suc g) ops))"
      then obtain k where "Suc g \<le> k" and "fst (uuid g) = fst (uuid k)"
        using added_entries_ids [of "Suc g" ops] by auto
      then show False using uuid_fresh [of g k] by simp
    qed
    then show ?thesis using Add Cons.IH [of "Suc g"] by (simp add: add_def uuid_def)
  next
    case (Remove ident)
    then show ?thesis using Cons.IH [of g] by simp
  qed
qed

lemma subseq_distinct_ids: "subseq xs ys \<Longrightarrow> distinct ys \<Longrightarrow> distinct xs"
proof (induction rule: list_emb.induct)
  case (list_emb_Nil ys)
  show ?case by simp
next
  case (list_emb_Cons xs ys y)
  then show ?case by simp
next
  case (list_emb_Cons2 x y xs ys)
  then show ?case by (auto elim: list_emb_set)
qed

text \<open>
  Claim C6.  After every sequence of \<open>add\<close> and \<open>remove\<close> calls from the empty store,
  no two entries of the list have the same id, and the entries stand in the order of their
  \<open>add\<close> calls: the list is a subsequence of the entries added, taken in the order of
  the calls, and without removals it is exactly that list.
\<close>

theorem store_ids_unique_ordered:
  "distinct (map nid (snd (run_calls ops)))
   \<and> subseq (snd (run_calls ops)) (added_entries 0 ops)
   \<and> (list_all is_add ops \<longrightarrow> snd (run_calls ops) = added_entries 0 ops)"
proof -
  have s: "subseq (snd (run_calls ops)) (added_entries 0 ops)"
    using foldl_call_subseq [of "(0, [])" ops] by (simp add: run_calls_def)
  then have "subseq (map nid (snd (run_calls ops))) (map nid (added_entries 0 ops))"
    by (rule subseq_map)
  then have "distinct (map nid (snd (run_calls ops)))"
    using distinct_added_entries by (rule subseq_distinct_ids)
  moreover have "list_all is_add ops \<longrightarrow> snd (run_calls ops) = added_entries 0 ops"
    using foldl_call_adds [of ops "(0, [])"] by (simp add: run_calls_def)
  ultimately show ?thesis using s by simp
qed

lemma example_two_adds:
  "list_all is_add [Add \<lparr>opt_text = ''one'', opt_type = ''info'', opt_timeout = None\<rparr>,
                    Add \<lparr>opt_text = ''two'', opt_type = ''error'', opt_timeout = Some 50\<rparr>]
   \<and> map nid (added_entries 0 [Add \<lparr>opt_text = ''one'', opt_type = ''info'', opt_timeout = None\<rparr>,
                    Add \<lparr>opt_text = ''two'', opt_type = ''error'', opt_timeout = Some 50\<rparr>]) = [''0'', ''1'']"
  by code_simp

theorem store_ids_unique_ordered_witness:
  "list_all is_add [Add \<lparr>opt_text = ''one'', opt_type = ''info'', opt_timeout = None\<rparr>,
                    Add \<lparr>opt_text = ''two'', opt_type = ''error'', opt_timeout = Some 50\<rparr>]
   \<and> map nid (snd (run_calls [Add \<lparr>opt_text = ''one'', opt_type = ''info'', opt_timeout = None\<rparr>,
                    Add \<lparr>opt_text = ''two'', opt_type = ''error'', opt_timeout = Some 50\<rparr>])) = [''0'', ''1'']
   \<and> distinct (map nid (snd (run_calls [Add \<lparr>opt_text = ''one'', opt_type = ''info'', opt_timeout = None\<rparr>,
                    Add \<lparr>opt_text = ''two'', opt_type = ''error'', opt_timeout = Some 50\<rparr>])))"
  using example_two_adds
    store_ids_unique_ordered [of "[Add \<lparr>opt_text = ''one'', opt_type = ''info'', opt_timeout = None\<rparr>,
                    Add \<lparr>opt_text = ''two'', opt_type = ''error'', opt_timeout = Some 50\<rparr>]"]
  by simp

lemma example_add_remove:
  "map nid (snd (run_calls [Add \<lparr>opt_text = ''one'', opt_type = ''info'', opt_timeout = None\<rparr>,
                    Add \<lparr>opt_text = ''two'', opt_type = ''error'', opt_timeout = Some 50\<rparr>,
                    Remove ''0'',
                    Add \<lparr>opt_text = ''three'', opt_type = ''info'', opt_timeout = None\<rparr>])) = [''1'', ''2'']"
  by code_simp

section \<open>Properties of the player\<close>

subsection \<open>Relative seek\<close>

lemma forward_never_passes_end:
  "0 \<le> amount \<Longrightarrow> currentTime st \<le> duration st \<Longrightarrow>
     currentTime (forwardVideo amount st) \<le> duration st"
  by (simp add: forwardVideo_def displayTransformationAlert_def Let_def)

lemma forward_keeps_time_near_end:
  "duration st - amount < currentTime st \<Longrightarrow>
     currentTime (forwardVideo amount st) = currentTime st"
  by (simp add: forwardVideo_def displayTransformationAlert_def Let_def)

lemma rewind_clamps_at_zero:
  "0 \<le> amount \<Longrightarrow> currentTime (rewindVideo amount st) = max 0 (currentTime st - amount)"
  by (simp add: rewindVideo_def displayTransformationAlert_def Let_def max_def)

lemma rewind_10_at_5: "currentTime (rewindVideo 10 (st\<lparr>currentTime := 5\<rparr>)) = 0"
  by (simp add: rewindVideo_def displayTransformationAlert_def Let_def)

text \<open>
  Claim C1, at its own example.  With \<open>currentTime = 95\<close> and \<open>duration = 100\<close>, the call
  \<open>forwardVideo(10)\<close> fails the test \<open>95 \<le> 100 - 10\<close> and has no other branch, so the
  time stays at 95; it is not moved to 100.  (\<open>rewindVideo\<close> has the branch that
  \<open>forwardVideo\<close> lacks: see \<open>rewind_clamps_at_zero\<close>.)
\<close>

theorem forward_10_at_95_of_100:
  "currentTime (forwardVideo 10 (st\<lparr>currentTime := 95, duration := 100\<rparr>)) = 95"
  by (simp add: forwardVideo_def displayTransformationAlert_def Let_def)

subsection \<open>Playback rate\<close>

lemma length_speeds: "length PLAYBACK_SPEEDS = 18" by (simp add: PLAYBACK_SPEEDS_def)

lemma changePlayrate_index:
  "playbackIndex (changePlayrate d st) =
     (if d = 1 then (if playbackIndex st < 17 then playbackIndex st + 1 else playbackIndex st)
      else (if playbackIndex st > 0 then playbackIndex st - 1 else playbackIndex st))"
  by (simp add: changePlayrate_def length_speeds Let_def)

lemma changePlayrate_rate:
  "rate (changePlayrate d st) = js_index PLAYBACK_SPEEDS (playbackIndex (changePlayrate d st))"
  by (simp add: changePlayrate_def Let_def)

lemma changePlayrate_keeps_range:
  assumes "0 \<le> playbackIndex st" and "playbackIndex st \<le> 17"
  shows "0 \<le> playbackIndex (changePlayrate d st) \<and> playbackIndex (changePlayrate d st) \<le> 17
    \<and> rate (changePlayrate d st) = Some (PLAYBACK_SPEEDS ! nat (playbackIndex (changePlayrate d st)))"
  using assms unfolding changePlayrate_rate
  by (simp add: changePlayrate_index length_speeds js_index_def)

lemma changePlayrates_keep_range:
  assumes "0 \<le> playbackIndex st" and "playbackIndex st \<le> 17"
    and "rate st = Some (PLAYBACK_SPEEDS ! nat (playbackIndex st))"
  shows "0 \<le> playbackIndex (changePlayrates ds st) \<and> playbackIndex (changePlayrates ds st) \<le> 17
    \<and> rate (changePlayrates ds st) = Some (PLAYBACK_SPEEDS ! nat (playbackIndex (changePlayrates ds st)))"
  using assms
proof (induction ds arbitrary: st)
  case Nil
  then show ?case by (simp add: changePlayrates_def)
next
  case (Cons d ds)
  have step: "0 \<le> playbackIndex (changePlayrate d st) \<and> playbackIndex (changePlayrate d st) \<le> 17
    \<and> rate (changePlayrate d st) = Some (PLAYBACK_SPEEDS ! nat (playbackIndex (changePlayrate d st)))"
    using Cons.prems(1,2) by (rule changePlayrate_keeps_range)
  have "changePlayrates (d # ds) st = changePlayrates ds (changePlayrate d st)"
    by (simp add: changePlayrates_def)
  then show ?case using Cons.IH [of "changePlayrate d st"] step by simp
qed

lemma increase_n:
  "playbackIndex st \<le> 17 \<Longrightarrow>
     playbackIndex ((changePlayrate 1 ^^ n) st) = min 17 (playbackIndex st + int n)"
  by (induction n) (auto simp: changePlayrate_index)

lemma rate_after_ten_increases: "rate ((changePlayrate 1 ^^ 10) initial_player) = Some 12"
proof -
  have "(changePlayrate 1 ^^ 10) initial_player = changePlayrate 1 ((changePlayrate 1 ^^ 9) initial_player)"
    by (simp add: numeral_eq_Suc)
  moreover have "playbackIndex ((changePlayrate 1 ^^ 9) initial_player) = 14"
    using increase_n [of initial_player 9] by (simp add: initial_player_def)
  ultimately show ?thesis
    by (simp add: changePlayrate_rate changePlayrate_index js_index_def PLAYBACK_SPEEDS_def)
qed

text \<open>
  Claim C3, as stated, at its own example: \<open>PLAYBACK_SPEEDS\<close> has 18 entries, so ten
  increases from index 5 end at index 15, two short of the last index 17.
\<close>

theorem ten_increases_counterexample:
  "playbackIndex ((changePlayrate 1 ^^ 10) initial_player) \<noteq> int (length PLAYBACK_SPEEDS) - 1"
  using increase_n [of initial_player 10] by (simp add: initial_player_def length_speeds)

text \<open>
  Claim C3, amended.  After every sequence of \<open>changePlayrate\<close> calls on the view as set
  up, \<open>playbackIndex\<close> lies between 0 and the last index of \<open>PLAYBACK_SPEEDS\<close> and
  \<open>rate\<close> is the speed at that index.  Ten consecutive increases from the default index 5
  end at index 15 (rate 12), and twelve or more end at the last index.
\<close>

theorem changePlayrate_index_in_range:
  "0 \<le> playbackIndex (changePlayrates ds initial_player)
   \<and> playbackIndex (changePlayrates ds initial_player) \<le> int (length PLAYBACK_SPEEDS) - 1
   \<and> rate (changePlayrates ds initial_player) =
       Some (PLAYBACK_SPEEDS ! nat (playbackIndex (changePlayrates ds initial_player)))
   \<and> playbackIndex ((changePlayrate 1 ^^ 10) initial_player) = 15
   \<and> rate ((changePlayrate 1 ^^ 10) initial_player) = Some 12
   \<and> (\<forall>n\<ge>12. playbackIndex ((changePlayrate 1 ^^ n) initial_player) = int (length PLAYBACK_SPEEDS) - 1)"
proof -
  have i5: "playbackIndex initial_player = 5" by (simp add: initial_player_def)
  have r1: "rate initial_player = Some (PLAYBACK_SPEEDS ! nat (playbackIndex initial_player))"
    by (simp add: initial_player_def PLAYBACK_SPEEDS_def)
  have inv: "0 \<le> playbackIndex (changePlayrates ds initial_player)
     \<and> playbackIndex (changePlayrates ds initial_player) \<le> 17
     \<and> rate (changePlayrates ds initial_player) =
       Some (PLAYBACK_SPEEDS ! nat (playbackIndex (changePlayrates ds initial_player)))"
    by (rule changePlayrates_keep_range) (simp_all add: i5 r1)
  have n: "playbackIndex ((changePlayrate 1 ^^ n) initial_player) = min 17 (5 + int n)" for n
    using increase_n [of initial_player n] i5 by simp
  have ten: "playbackIndex ((changePlayrate 1 ^^ 10) initial_player) = 15"
    using n [of 10] by simp
  have many: "\<forall>n\<ge>12. playbackIndex ((changePlayrate 1 ^^ n) initial_player) = 17"
    using n by simp
  show ?thesis using inv ten many rate_after_ten_increases by (simp add: length_speeds)
qed

theorem changePlayrate_index_in_range_witness:
  "(12::nat) \<le> 12 \<and> playbackIndex ((changePlayrate 1 ^^ 12) initial_player) = 17
   \<and> playbackIndex (changePlayrates [1, 1, 0, 0, 0, 0, 0, 0, 0, 0] initial_player) = 0
   \<and> rate (changePlayrates [1, 1, 0, 0, 0, 0, 0, 0, 0, 0] initial_player) = Some 0.07"
  using changePlayrate_index_in_range [of "[1, 1, 0, 0, 0, 0, 0, 0, 0, 0]"]
  by (simp add: length_speeds changePlayrates_def changePlayrate_index PLAYBACK_SPEEDS_def initial_player_def)

subsection \<open>Volume steps\<close>

text \<open>
  Two values of \<open>double\<close> that are known from the doubles themselves: the literal
  \<open>0.1\<close> is \<open>3602879701896397 / 2 ^ 55\<close>, and \<open>0.1 + 0.2\<close> is
  \<open>0.30000000000000004\<close>, which is \<open>1351079888211149 / 2 ^ 52\<close>.
\<close>

lemma double_known_values:
  "double 0.1 = 3602879701896397 / 2 ^ 55
   \<and> double (double 0.1 + double 0.2) = 1351079888211149 / 2 ^ 52
   \<and> double (double 0.1 + double 0.2) \<noteq> double 0.3"
  by code_simp

lemma volume_increaseVolume:
  "volume (increaseVolume st) =
     (if volume st < 1 then toFixed1 (double (volume st + double 0.1)) else volume st)"
  by (simp add: increaseVolume_def displayTransformationAlert_def Let_def)

lemma volume_decreaseVolume:
  "volume (decreaseVolume st) =
     (if volume st > 0 then toFixed1 (double (volume st - double 0.1)) else volume st)"
  by (simp add: decreaseVolume_def displayTransformationAlert_def Let_def)

lemma decrease_stays_at_zero: "volume st = 0 \<Longrightarrow> volume ((decreaseVolume ^^ n) st) = 0"
  by (induction n) (simp_all add: volume_decreaseVolume)

lemma increase_stays_at_one: "volume st = 1 \<Longrightarrow> volume ((increaseVolume ^^ n) st) = 1"
  by (induction n) (simp_all add: volume_increaseVolume)

lemma doubles_near_one:
  "0 \<le> double 0.96 \<and> double 0.96 < 1
   \<and> toFixed1 (double (double 0.96 + double 0.1)) = double 1.1
   \<and> 1 < double 1.1"
  by code_simp

lemma doubles_near_zero:
  "0 < double 0.04 \<and> double 0.04 \<le> 1
   \<and> toFixed1 (double (double 0.04 - double 0.1)) = double (- 0.1)
   \<and> double (- 0.1) < 0"
  by code_simp

lemma tenths_up:
  "list_all (\<lambda>k. double (real k / 10) < 1
      \<and> toFixed1 (double (double (real k / 10) + double 0.1)) = double (real (Suc k) / 10)) [0..<10]"
  by code_simp

lemma tenths_down:
  "list_all (\<lambda>k. 0 < double (real (Suc k) / 10)
      \<and> toFixed1 (double (double (real (Suc k) / 10) - double 0.1)) = double (real k / 10)) [0..<10]"
  by code_simp

lemma tenths_inexact:
  "double (double 0.7 + double 0.1) \<noteq> double 0.8 \<and> double (double 0.3 - double 0.1) \<noteq> double 0.2
   \<and> double 1 = 1 \<and> double 0 = 0 \<and> double 0.5 = 0.5"
  by code_simp

lemma increase_on_tenths:
  assumes "k < 10" and "volume st = double (real k / 10)"
  shows "volume (increaseVolume st) = double (real (Suc k) / 10)"
proof -
  have "k \<in> set [0..<10]" using assms(1) by simp
  then have "double (real k / 10) < 1
      \<and> toFixed1 (double (double (real k / 10) + double 0.1)) = double (real (Suc k) / 10)"
    using tenths_up unfolding list_all_iff by blast
  then show ?thesis using assms(2) by (simp only: volume_increaseVolume if_True)
qed

lemma decrease_on_tenths:
  assumes "k < 10" and "volume st = double (real (Suc k) / 10)"
  shows "volume (decreaseVolume st) = double (real k / 10)"
proof -
  have "k \<in> set [0..<10]" using assms(1) by simp
  then have "0 < double (real (Suc k) / 10)
      \<and> toFixed1 (double (double (real (Suc k) / 10) - double 0.1)) = double (real k / 10)"
    using tenths_down unfolding list_all_iff by blast
  then show ?thesis using assms(2) by (simp only: volume_decreaseVolume if_True)
qed

text \<open>
  Claim C5, where the code departs from it.  The volume 0.96 lies in \<open>[0, 1]\<close> and passes
  the test \<open>volume < 1\<close>; \<open>increaseVolume\<close> then stores 1.06 rounded to one decimal,
  which is 1.1, outside \<open>[0, 1]\<close>.  The test comes before the step and nothing bounds
  the result after it.  (On the tenths from 0 to 1 the steps are as the claim says, and
  repeated steps at 0 and at 1 change nothing: \<open>increase_on_tenths\<close>,
  \<open>decrease_on_tenths\<close>, \<open>decrease_stays_at_zero\<close>, \<open>increase_stays_at_one\<close>.)
\<close>

theorem increaseVolume_leaves_unit_interval:
  "0 \<le> volume (st\<lparr>volume := double 0.96\<rparr>) \<and> volume (st\<lparr>volume := double 0.96\<rparr>) \<le> 1
   \<and> volume (increaseVolume (st\<lparr>volume := double 0.96\<rparr>)) = double 1.1
   \<and> 1 < volume (increaseVolume (st\<lparr>volume := double 0.96\<rparr>))"
  using doubles_near_one by (simp add: volume_increaseVolume)

lemma decreaseVolume_leaves_unit_interval:
  "volume (decreaseVolume (st\<lparr>volume := double 0.04\<rparr>)) = double (- 0.1)
   \<and> volume (decreaseVolume (st\<lparr>volume := double 0.04\<rparr>)) < 0"
  using doubles_near_zero by (simp add: volume_decreaseVolume)

subsection \<open>Startup\<close>

lemma valid_extension_without_first_char:
  "e \<in> set VALID_EXTENSIONS \<Longrightarrow> substring e 1 (length e) \<notin> set VALID_EXTENSIONS"
  by (auto simp: VALID_EXTENSIONS_def substring_def)

lemma startup_no_path:
  "fst (onBeforeMount h None st) = CallsShowVideoChooser
   \<and> fst (onBeforeMount h (Some []) st) = CallsShowVideoChooser"
  by (simp add: onBeforeMount_def)

lemma startup_missing_file:
  "\<not> exists_file h p \<Longrightarrow> fst (onBeforeMount h (Some p) st) = CallsShowVideoChooser"
  by (simp add: onBeforeMount_def)

lemma startup_opens_iff:
  assumes "p \<noteq> []" and "exists_file h p" and "extname h p = Some e"
  shows "fst (onBeforeMount h (Some p) st) = CallsSetVideoSource
    \<longleftrightarrow> substring (toLowerCase e) 1 (length (toLowerCase e)) \<in> set VALID_EXTENSIONS"
  using assms by (simp add: onBeforeMount_def)

lemma startup_without_extension:
  assumes "p \<noteq> []" and "exists_file h p" and "extname h p = None"
  shows "onBeforeMount h (Some p) st = (RejectedByExtname, st)"
  using assms by (simp add: onBeforeMount_def)

text \<open>
  Claim C4, where the code departs from it.  \<open>extname\<close> hands back the extension without
  its dot (\<open>setVideoSource\<close> relies on that, putting the dot in front itself and looking
  the result up in \<open>VALID_EXTENSIONS\<close> as it is), and \<open>onBeforeMount\<close> cuts the first
  character off before the lookup.  So for every path that exists on disk and has an
  extension of the allow-list, the start ends with the chooser, not with the video.
\<close>

theorem startup_allowed_extension_shows_chooser:
  assumes "p \<noteq> []" and "exists_file h p" and "extname h p = Some e"
    and "toLowerCase e \<in> set VALID_EXTENSIONS"
  shows "fst (onBeforeMount h (Some p) st) = CallsShowVideoChooser"
  using assms valid_extension_without_first_char [of "toLowerCase e"]
  by (simp add: onBeforeMount_def)

lemma example_clip:
  "path_basename ''/videos/clip.mp4'' = Some ''clip.mp4''
   \<and> path_extname ''/videos/clip.mp4'' = Some ''mp4''
   \<and> toLowerCase ''mp4'' = ''mp4''"
  by code_simp

theorem startup_allowed_extension_shows_chooser_witness:
  "''/videos/clip.mp4'' \<noteq> []
   \<and> exists_file (example_host [''/videos/clip.mp4'']) ''/videos/clip.mp4''
   \<and> extname (example_host [''/videos/clip.mp4'']) ''/videos/clip.mp4'' = Some ''mp4''
   \<and> toLowerCase ''mp4'' \<in> set VALID_EXTENSIONS
   \<and> fst (onBeforeMount (example_host [''/videos/clip.mp4'']) (Some ''/videos/clip.mp4'') initial_player)
       = CallsShowVideoChooser"
proof -
  have a: "''/videos/clip.mp4'' \<noteq> []" by simp
  have b: "exists_file (example_host [''/videos/clip.mp4'']) ''/videos/clip.mp4''"
    by (simp add: example_host_def)
  have c: "extname (example_host [''/videos/clip.mp4'']) ''/videos/clip.mp4'' = Some ''mp4''"
    using example_clip by (simp add: example_host_def)
  have d: "toLowerCase ''mp4'' \<in> set VALID_EXTENSIONS"
    using example_clip by (simp add: VALID_EXTENSIONS_def)
  show ?thesis
    using a b c d startup_allowed_extension_shows_chooser [OF a b c d, of initial_player] by simp
qed

subsection \<open>Title derivation\<close>

lemma videoTitle_playVideo: "videoTitle (playVideo h st) = videoTitle st"
  by (simp add: playVideo_def displayTransformationAlert_def)

lemma derived_title:
  "videoTitle (snd (setVideoSource h p None st)) =
     (case basename h p of None \<Rightarrow> videoTitle st
      | Some b \<Rightarrow> (case extname h p of None \<Rightarrow> videoTitle st
                    | Some e \<Rightarrow> Some (replace (''.'' @ e) [] b)))"
  by (simp add: setVideoSource_def truthy_def Let_def videoTitle_playVideo split: option.splits)

lemma replace_only_suffix:
  assumes "pat \<noteq> []" and "\<not> sublist pat (stem @ butlast pat)"
  shows "replace pat [] (stem @ pat) = stem"
  using assms
proof (induction stem)
  case Nil
  then show ?case by (cases pat) simp_all
next
  case (Cons c cs)
  have "\<not> prefix pat (c # cs @ pat)"
  proof
    assume "prefix pat (c # cs @ pat)"
    then have "prefix pat ((c # cs @ butlast pat) @ [last pat])"
      using Cons.prems(1) by simp
    then have "prefix pat (c # cs @ butlast pat)"
      by (metis Cons_eq_appendI butlast_snoc list.discI prefix_snoc self_append_conv2)
    then show False using Cons.prems(2) by auto
  qed
  moreover have "\<not> sublist pat (cs @ butlast pat)"
    using Cons.prems(2) by (metis Cons_eq_appendI sublist_Cons_right)
  ultimately show ?case using Cons.IH Cons.prems(1) by simp
qed


lemma replace_strips_extension:
  assumes "suffix (''.'' @ e) b" and "\<not> sublist (''.'' @ e) (butlast b)"
  shows "replace (''.'' @ e) [] b = strip_extension b e"
proof -
  from assms(1) obtain stem where b: "b = stem @ ''.'' @ e" by (auto simp: suffix_def)
  have bl: "butlast b = stem @ butlast (''.'' @ e)" unfolding b by (simp add: butlast_append)
  have "replace (''.'' @ e) [] (stem @ (''.'' @ e)) = stem"
    by (rule replace_only_suffix) (use assms(2) bl in simp_all)
  moreover have "strip_extension b e = stem"
    using assms(1) by (simp add: strip_extension_def b)
  ultimately show ?thesis by (simp add: b)
qed

lemma example_talk:
  "path_basename ''/videos/talk.mp4.old.mp4'' = Some ''talk.mp4.old.mp4''
   \<and> path_extname ''/videos/talk.mp4.old.mp4'' = Some ''mp4''
   \<and> path_extname ''asset://localhost/videos/talk.mp4.old.mp4'' = Some ''mp4''
   \<and> replace ''.mp4'' [] ''talk.mp4.old.mp4'' = ''talk.old.mp4''
   \<and> strip_extension ''talk.mp4.old.mp4'' ''mp4'' = ''talk.mp4.old''"
  by code_simp

text \<open>
  Claim C7, where the code departs from it.  For the file \<open>talk.mp4.old.mp4\<close> the code
  takes the base name and the extension \<open>mp4\<close> and removes \<open>.mp4\<close> with \<open>replace\<close>,
  which removes the first occurrence: the derived title is \<open>talk.old.mp4\<close>.  The file
  name with its extension stripped is \<open>talk.mp4.old\<close>.
\<close>

theorem setVideoSource_title_at_talk:
  "basename (example_host []) ''/videos/talk.mp4.old.mp4'' = Some ''talk.mp4.old.mp4''
   \<and> extname (example_host []) ''/videos/talk.mp4.old.mp4'' = Some ''mp4''
   \<and> videoTitle (snd (setVideoSource (example_host []) ''/videos/talk.mp4.old.mp4'' None initial_player))
       = Some ''talk.old.mp4''
   \<and> videoTitle (snd (setVideoSource (example_host []) ''/videos/talk.mp4.old.mp4'' None initial_player))
       \<noteq> Some (strip_extension ''talk.mp4.old.mp4'' ''mp4'')"
  using example_talk by (simp add: derived_title example_host_def)

text \<open>
  The rest of the claim holds: a second call with the same path and no title leaves the
  title of the first, and the title is the file name with its extension stripped whenever
  the dot and extension do not occur earlier in the name.
\<close>

lemma title_same_on_second_call:
  "videoTitle (snd (setVideoSource h p None (snd (setVideoSource h p None st))))
     = videoTitle (snd (setVideoSource h p None st))"
  by (simp add: derived_title split: option.splits)

lemma title_strips_single_extension:
  assumes "basename h p = Some b" and "extname h p = Some e"
    and "suffix (''.'' @ e) b" and "\<not> sublist (''.'' @ e) (butlast b)"
  shows "videoTitle (snd (setVideoSource h p None st)) = Some (strip_extension b e)"
  using assms(1,2) replace_strips_extension [OF assms(3,4)] by (simp add: derived_title)

subsection \<open>Saving a YouTube video\<close>

lemma notifications_notify:
  "notifications (notify uniqueId options st) =
     notifications st @ [\<lparr>nid = uniqueId, ntext = opt_text options, ntype = opt_type options,
                          ntimeout = stored_timeout (opt_timeout options)\<rparr>]"
  by (simp add: notify_def add_def)

lemma videoTitle_notify: "videoTitle (notify uniqueId options st) = videoTitle st"
  by (simp add: notify_def)

text \<open>
  Claim C10.  When no \<open>youtubeCode\<close> is stored, \<open>saveYouTubeVideo\<close> adds the warning
  notification and goes on: it opens the save dialog, and when a path is chosen it invokes
  the save command with the absent code and that path.
\<close>

theorem saveYouTubeVideo_without_code:
  assumes "h_youtubeCode (history st) = None"
  shows "take (Suc (length (notifications st))) (notifications (snd (saveYouTubeVideo h id1 id2 st)))
      = notifications st @ [\<lparr>nid = id1, ntext = ''You haven't downloaded a YouTube video yet'',
                              ntype = ''warning'', ntimeout = 5000\<rparr>]
    \<and> take 1 (fst (saveYouTubeVideo h id1 id2 st))
      = [SaveDialog (join h (downloadDir h)
          ((case videoTitle st of None \<Rightarrow> ''video'' | Some t \<Rightarrow> t) @ ''.mp4''))]
    \<and> (\<forall>path. save h (join h (downloadDir h)
                ((case videoTitle st of None \<Rightarrow> ''video'' | Some t \<Rightarrow> t) @ ''.mp4'')) = Some path
              \<and> path \<noteq> [] \<longrightarrow>
          fst (saveYouTubeVideo h id1 id2 st)
            = [SaveDialog (join h (downloadDir h)
                 ((case videoTitle st of None \<Rightarrow> ''video'' | Some t \<Rightarrow> t) @ ''.mp4'')),
               InvokeSaveYoutubeVideo None path])"
  using assms
  by (auto simp: saveYouTubeVideo_def truthy_def Let_def notifications_notify videoTitle_notify
      stored_timeout_def split: option.splits)

theorem saveYouTubeVideo_without_code_witness:
  "h_youtubeCode (history initial_player) = None
   \<and> save (example_host []) ''/home/user/Downloads/video.mp4'' = Some ''/home/user/Downloads/video.mp4''
   \<and> map ntype (notifications (snd (saveYouTubeVideo (example_host []) ''id-1'' ''id-2'' initial_player)))
       = [''warning'', ''success'']
   \<and> fst (saveYouTubeVideo (example_host []) ''id-1'' ''id-2'' initial_player)
       = [SaveDialog ''/home/user/Downloads/video.mp4'',
          InvokeSaveYoutubeVideo None ''/home/user/Downloads/video.mp4'']"
proof -
  have a: "h_youtubeCode (history initial_player) = None"
    by (simp add: initial_player_def initial_history_def)
  have b: "map ntype (notifications (snd (saveYouTubeVideo (example_host []) ''id-1'' ''id-2'' initial_player)))
       = [''warning'', ''success'']"
    by (simp add: saveYouTubeVideo_def truthy_def Let_def notifications_notify videoTitle_notify
        initial_player_def initial_history_def example_host_def)
  show ?thesis
    using a b saveYouTubeVideo_without_code [OF a, of "example_host []" "''id-1''" "''id-2''"]
    by (simp add: example_host_def initial_player_def)
qed

section \<open>Properties of the window helper\<close>

lemma windows_closeWindow: "windows (closeWindow label w) = windows w - {label}"
  by (simp add: closeWindow_def getByLabel_def)

text \<open>
  Claim C9.  Let the helper be set up while the labelled window exists.  A blur event on
  that window closes it if and only if the suppression flag is inactive, where a ref is
  read in the world of the event (the world of the registration plays no part); the other
  windows stay.  An Escape key-down on the mounted component closes the window whatever the
  flag is.
\<close>

theorem blur_closes_unless_suppressed:
  assumes "label \<in> windows w_reg" and "label \<in> windows w_ev"
  shows "(label \<notin> windows (fire_blur (useWindowClose label disableBlur w_reg) w_ev)
          \<longleftrightarrow> \<not> (case disableBlur of Plain b \<Rightarrow> b | Ref r \<Rightarrow> refs w_ev r))
    \<and> windows (fire_blur (useWindowClose label disableBlur w_reg) w_ev)
        = (if (case disableBlur of Plain b \<Rightarrow> b | Ref r \<Rightarrow> refs w_ev r)
           then windows w_ev else windows w_ev - {label})
    \<and> label \<notin> windows (fire_keydown (useWindowClose label disableBlur w_reg) True
                           \<lparr>code = ''Escape''\<rparr> w_ev)"
  using assms
  by (auto simp: fire_blur_def fire_keydown_def useWindowClose_def blurListener_def eventHandler_def
      getByLabel_def windows_closeWindow split: blur_flag.splits)

theorem blur_closes_unless_suppressed_witness:
  "''help'' \<in> windows \<lparr>windows = {''main'', ''help''}, refs = (\<lambda>r. False)\<rparr>
   \<and> ''help'' \<in> windows \<lparr>windows = {''main'', ''help''}, refs = (\<lambda>r. True)\<rparr>
   \<and> windows (fire_blur (useWindowClose ''help'' (Ref 0) \<lparr>windows = {''main'', ''help''}, refs = (\<lambda>r. False)\<rparr>)
        \<lparr>windows = {''main'', ''help''}, refs = (\<lambda>r. True)\<rparr>) = {''main'', ''help''}
   \<and> windows (fire_blur (useWindowClose ''help'' (Ref 0) \<lparr>windows = {''main'', ''help''}, refs = (\<lambda>r. True)\<rparr>)
        \<lparr>windows = {''main'', ''help''}, refs = (\<lambda>r. False)\<rparr>) = {''main''}
   \<and> ''help'' \<notin> windows (fire_keydown (useWindowClose ''help'' (Ref 0)
        \<lparr>windows = {''main'', ''help''}, refs = (\<lambda>r. False)\<rparr>) True \<lparr>code = ''Escape''\<rparr>
        \<lparr>windows = {''main'', ''help''}, refs = (\<lambda>r. True)\<rparr>)"
  using blur_closes_unless_suppressed [of "''help''" "\<lparr>windows = {''main'', ''help''}, refs = (\<lambda>r. False)\<rparr>"
      "\<lparr>windows = {''main'', ''help''}, refs = (\<lambda>r. True)\<rparr>" "Ref 0"]
    blur_closes_unless_suppressed [of "''help''" "\<lparr>windows = {''main'', ''help''}, refs = (\<lambda>r. True)\<rparr>"
      "\<lparr>windows = {''main'', ''help''}, refs = (\<lambda>r. False)\<rparr>" "Ref 0"]
  by auto

end
